theory Spec2Isabelle
  imports Main "HOL-Library.Sublist"
begin

section \<open>The developer task runner \<^verbatim>\<open>tasks.py\<close>\<close>

text \<open>
  \<^verbatim>\<open>tasks.py\<close> dispatches one command-line argument to one of ten actions. An action
  prints, runs external commands through \<^verbatim>\<open>run_command\<close>, and four of them touch the
  directory \<^verbatim>\<open>build\<close> and the working directory. The embedding makes each of these
  effects a field of an explicit state that every function takes and returns.
\<close>

subsection \<open>Text\<close>

text \<open>
  A Python \<^verbatim>\<open>str\<close> is modelled by its UTF-8 bytes. The six pictographs of the source
  are outside ASCII and are written byte by byte.
\<close>

definition wrench :: string where
  "wrench = [CHR 0xF0, CHR 0x9F, CHR 0x94, CHR 0xA7]"

definition cross_mark :: string where
  "cross_mark = [CHR 0xE2, CHR 0x9D, CHR 0x8C]"

definition rocket :: string where
  "rocket = [CHR 0xF0, CHR 0x9F, CHR 0x9A, CHR 0x80]"

definition check_mark :: string where
  "check_mark = [CHR 0xE2, CHR 0x9C, CHR 0x85]"

definition clipboard :: string where
  "clipboard = [CHR 0xF0, CHR 0x9F, CHR 0x93, CHR 0x8B]"

definition broom :: string where
  "broom = [CHR 0xF0, CHR 0x9F, CHR 0xA7, CHR 0xB9]"

text \<open>Decimal rendering, as \<^verbatim>\<open>%d\<close> does it.\<close>

fun str_nat :: "nat \<Rightarrow> string" where
  "str_nat n =
     (if n < 10 then [''0123456789'' ! n]
      else str_nat (n div 10) @ [''0123456789'' ! (n mod 10)])"

declare str_nat.simps [simp del]

definition str_int :: "int \<Rightarrow> string" where
  "str_int i = (if i < 0 then ''-'' @ str_nat (nat (- i)) else str_nat (nat i))"

subsection \<open>The state of the process and of its surroundings\<close>

text \<open>
  A path is the list of its components from the root. The file system says what is at
  each path: nothing, a regular file, a directory, or a symbolic link with the path it
  points to.
\<close>

type_synonym path = "string list"

datatype node = File | Dir | Link path

type_synonym filesystem = "path \<Rightarrow> node option"

text \<open>
  \<^item> \<open>cwd\<close>: the current working directory of the process;
  \<^item> \<open>fs\<close>: the file system;
  \<^item> \<open>printed\<close>: the argument of every \<^verbatim>\<open>print\<close> call so far, oldest first
    (\<^verbatim>\<open>print\<close> writes its argument and a line feed);
  \<^item> \<open>calls\<close>: every command handed to the shell so far, with the working directory
    it was started in, oldest first.
\<close>

record world =
  cwd :: path
  fs :: filesystem
  printed :: "string list"
  calls :: "(string \<times> path) list"

text \<open>
  What a child process that has exited leaves behind: its exit status and, for each of
  the two captured streams, the text its bytes decode to, or \<open>None\<close> where they do not
  decode in the encoding of the locale.
\<close>

record exited =
  exit_status :: int
  stdout_text :: "string option"
  stderr_text :: "string option"

text \<open>The \<^verbatim>\<open>CompletedProcess\<close> that \<^verbatim>\<open>subprocess.run\<close> returns.\<close>

record completed =
  returncode :: int
  stdout :: string
  stderr :: string

text \<open>
  The parts of the platform that \<^verbatim>\<open>tasks.py\<close> uses and does not define:
  \<^item> \<open>subprocess_run cmd dir files\<close>: what running the shell command \<open>cmd\<close> in directory
    \<open>dir\<close> on the file system \<open>files\<close> yields: what the child leaves behind, and the
    file system after it. A child cannot change the working directory of its parent.
    The shell is taken to be there and the command to exit (the source sets no
    timeout).
  \<^item> \<open>signal_repr n\<close>: the \<^verbatim>\<open>repr\<close> of \<^verbatim>\<open>signal.Signals(n)\<close>, or \<open>None\<close> where that
    raises \<^verbatim>\<open>ValueError\<close>.
\<close>

record platform =
  subprocess_run :: "string \<Rightarrow> path \<Rightarrow> filesystem \<Rightarrow> exited \<times> filesystem"
  signal_repr :: "nat \<Rightarrow> string option"

text \<open>
  The exceptions of the library calls. \<open>CalledProcessError cmd rc out err\<close> carries the
  command, its exit status and its two captured streams. \<open>OSError\<close> stands for an
  \<^verbatim>\<open>OSError\<close> of no more specific class.
\<close>

datatype exn =
  FileExistsError
| FileNotFoundError
| NotADirectoryError
| OSError
| UnicodeDecodeError
| CalledProcessError string int string string

datatype 'a outcome = Returns 'a | Raises exn

text \<open>The source's functions return \<^verbatim>\<open>True\<close>, \<^verbatim>\<open>False\<close> or \<^verbatim>\<open>None\<close>.\<close>

datatype pyval = PyBool bool | PyNone

subsection \<open>Library calls\<close>

text \<open>\<^verbatim>\<open>print(s)\<close>; standard output is taken to accept every text.\<close>

definition print :: "string \<Rightarrow> world \<Rightarrow> world" where
  "print s w = w\<lparr>printed := printed w @ [s]\<rparr>"

text \<open>A relative one-component path, resolved against the working directory.\<close>

definition resolve :: "world \<Rightarrow> string \<Rightarrow> path" where
  "resolve w name = cwd w @ [name]"

text \<open>
  What the system finds at a path when it follows symbolic links, as \<^verbatim>\<open>stat\<close> does: a
  directory or a regular file, with the path where it really is; nothing; or more
  links in a row than it is willing to follow (forty of them).
\<close>

datatype lookup = DirAt path | FileAt path | Nothing | TooManyLinks

fun follow :: "filesystem \<Rightarrow> nat \<Rightarrow> path \<Rightarrow> lookup" where
  "follow files n p =
     (case files p of
        None \<Rightarrow> Nothing
      | Some File \<Rightarrow> FileAt p
      | Some Dir \<Rightarrow> DirAt p
      | Some (Link t) \<Rightarrow> if n = 0 then TooManyLinks else follow files (n - 1) t)"

declare follow.simps [simp del]

definition stat :: "string \<Rightarrow> world \<Rightarrow> lookup" where
  "stat name w = follow (fs w) 40 (resolve w name)"

text \<open>
  \<^verbatim>\<open>Path(name).exists()\<close> follows links: it is true of a directory and of a regular file
  alike, and false of a link that leads nowhere.
\<close>

definition Path_exists :: "string \<Rightarrow> world \<Rightarrow> bool" where
  "Path_exists name w =
     (case stat name w of DirAt p \<Rightarrow> True | FileAt p \<Rightarrow> True | Nothing \<Rightarrow> False
      | TooManyLinks \<Rightarrow> False)"

text \<open>\<^verbatim>\<open>os.path.isdir(name)\<close> follows links too.\<close>

definition os_path_isdir :: "string \<Rightarrow> world \<Rightarrow> bool" where
  "os_path_isdir name w =
     (case stat name w of DirAt p \<Rightarrow> True | FileAt p \<Rightarrow> False | Nothing \<Rightarrow> False
      | TooManyLinks \<Rightarrow> False)"

text \<open>
  \<^verbatim>\<open>os.makedirs(name, exist_ok=True)\<close>: \<^verbatim>\<open>mkdir\<close> fails where anything is at the path, a
  link included; the failure is passed over where \<^verbatim>\<open>os.path.isdir\<close> holds and raised
  otherwise. The process is taken to have the permissions it needs, here and below.
\<close>

definition os_makedirs :: "string \<Rightarrow> world \<Rightarrow> unit outcome \<times> world" where
  "os_makedirs name w =
     (case fs w (resolve w name) of
        None \<Rightarrow> (Returns (), w\<lparr>fs := (fs w)(resolve w name \<mapsto> Dir)\<rparr>)
      | Some n \<Rightarrow>
          if os_path_isdir name w then (Returns (), w) else (Raises FileExistsError, w))"

text \<open>
  \<^verbatim>\<open>os.chdir(name)\<close> follows links; the working directory becomes the path where the
  directory really is.
\<close>

definition os_chdir :: "string \<Rightarrow> world \<Rightarrow> unit outcome \<times> world" where
  "os_chdir name w =
     (case stat name w of
        DirAt p \<Rightarrow> (Returns (), w\<lparr>cwd := p\<rparr>)
      | FileAt p \<Rightarrow> (Raises NotADirectoryError, w)
      | Nothing \<Rightarrow> (Raises FileNotFoundError, w)
      | TooManyLinks \<Rightarrow> (Raises OSError, w))"

text \<open>
  \<^verbatim>\<open>shutil.rmtree(name)\<close> does not follow links: it refuses a symbolic link and a
  regular file, and of a directory it removes the directory and everything below it.
\<close>

definition shutil_rmtree :: "string \<Rightarrow> world \<Rightarrow> unit outcome \<times> world" where
  "shutil_rmtree name w =
     (case fs w (resolve w name) of
        None \<Rightarrow> (Raises FileNotFoundError, w)
      | Some File \<Rightarrow> (Raises NotADirectoryError, w)
      | Some Dir \<Rightarrow>
          (Returns (),
           w\<lparr>fs := (\<lambda>p. if prefix (resolve w name) p then None else fs w p)\<rparr>)
      | Some (Link t) \<Rightarrow> (Raises OSError, w))"

text \<open>
  \<^verbatim>\<open>subprocess.run(cmd, shell=True, check=True, capture_output=True, text=True)\<close>: the
  command runs in the working directory of the process. With \<^verbatim>\<open>text=True\<close> both
  captured streams are decoded once the child has exited, and bytes that do not decode
  raise \<^verbatim>\<open>UnicodeDecodeError\<close>; only then, with \<^verbatim>\<open>check=True\<close>, a non-zero exit status
  raises \<^verbatim>\<open>CalledProcessError\<close>.
\<close>

definition subprocess_run_check :: "platform \<Rightarrow> string \<Rightarrow> world \<Rightarrow> completed outcome \<times> world" where
  "subprocess_run_check pf cmd w =
     (let (child, fs') = subprocess_run pf cmd (cwd w) (fs w);
          w' = w\<lparr>fs := fs', calls := calls w @ [(cmd, cwd w)]\<rparr>
      in case stdout_text child of
           None \<Rightarrow> (Raises UnicodeDecodeError, w')
         | Some out \<Rightarrow>
             (case stderr_text child of
                None \<Rightarrow> (Raises UnicodeDecodeError, w')
              | Some err \<Rightarrow>
                  if exit_status child \<noteq> 0 then
                    (Raises (CalledProcessError cmd (exit_status child) out err), w')
                  else
                    (Returns \<lparr>returncode = exit_status child, stdout = out, stderr = err\<rparr>,
                     w')))"

text \<open>
  \<^verbatim>\<open>str(e)\<close> for a \<^verbatim>\<open>CalledProcessError\<close> with command \<open>cmd\<close> and status \<open>rc\<close>: a negative
  status names the signal that ended the child. \<open>quoted s\<close> is \<open>s\<close> between two
  apostrophes, as the format \<^verbatim>\<open>'%s'\<close> gives it.
\<close>

definition quoted :: "string \<Rightarrow> string" where
  "quoted s = [CHR 0x27] @ s @ [CHR 0x27]"

definition CalledProcessError_str :: "platform \<Rightarrow> string \<Rightarrow> int \<Rightarrow> string" where
  "CalledProcessError_str pf cmd rc =
     (if rc \<noteq> 0 \<and> rc < 0 then
        (case signal_repr pf (nat (- rc)) of
           Some r \<Rightarrow> ''Command '' @ quoted cmd @ '' died with '' @ r @ ''.''
         | None \<Rightarrow> ''Command '' @ quoted cmd @ '' died with unknown signal ''
                     @ str_int (- rc) @ ''.'')
      else ''Command '' @ quoted cmd @ '' returned non-zero exit status ''
             @ str_int rc @ ''.'')"

subsection \<open>The Process Executor\<close>

text \<open>
  \<^verbatim>\<open>run_command(cmd, description)\<close>, lines 10 to 26. The \<^verbatim>\<open>except\<close> clause handles
  \<^verbatim>\<open>CalledProcessError\<close> and nothing else.
\<close>

definition run_command :: "platform \<Rightarrow> string \<Rightarrow> string \<Rightarrow> world \<Rightarrow> bool outcome \<times> world" where
  "run_command pf cmd description w =
     (let w1 = print (wrench @ '' '' @ description @ ''...'') w
      in case subprocess_run_check pf cmd w1 of
           (Returns result, w2) \<Rightarrow>
             (let w3 = (if stdout result \<noteq> [] then print (stdout result) w2 else w2)
              in (Returns True, w3))
         | (Raises (CalledProcessError c rc out err), w2) \<Rightarrow>
             (let w3 = print (cross_mark @ '' Error: '' @ CalledProcessError_str pf c rc) w2;
                  w4 = (if out \<noteq> [] then print (''Output: '' @ out) w3 else w3);
                  w5 = (if err \<noteq> [] then print (''Error: '' @ err) w4 else w4)
              in (Returns False, w5))
         | (Raises e, w2) \<Rightarrow> (Raises e, w2))"

subsection \<open>The actions\<close>

text \<open>Several \<^verbatim>\<open>print\<close> statements in a row.\<close>

definition prints :: "string list \<Rightarrow> world \<Rightarrow> world" where
  "prints ls w = fold print ls w"

text \<open>\<^verbatim>\<open>setup_dev()\<close>, lines 29 to 51.\<close>

definition setup_dev :: "platform \<Rightarrow> world \<Rightarrow> bool outcome \<times> world" where
  "setup_dev pf w =
     (let w0 = print (rocket @ '' Setting up DeclarativeUI development environment...'') w
      in case run_command pf ''pip install -r requirements.txt''
                ''Installing Python dependencies'' w0 of
           (Raises e, w1) \<Rightarrow> (Raises e, w1)
         | (Returns ok1, w1) \<Rightarrow>
             if \<not> ok1 then (Returns False, w1)
             else
               (case run_command pf ''pre-commit install''
                       ''Installing pre-commit hooks'' w1 of
                  (Raises e, w2) \<Rightarrow> (Raises e, w2)
                | (Returns ok2, w2) \<Rightarrow>
                    if \<not> ok2 then (Returns False, w2)
                    else
                      (Returns True,
                       prints
                         [check_mark @ '' Development environment setup complete!'',
                          [CHR 0x0A] @ clipboard @ '' Next steps:'',
                          ''   1. mkdir build && cd build'',
                          ''   2. cmake .. -DCMAKE_BUILD_TYPE=Debug -DBUILD_EXAMPLES=ON -DBUILD_TESTS=ON'',
                          ''   3. cmake --build .'',
                          ''   4. ctest --output-on-failure''] w2)))"

text \<open>\<^verbatim>\<open>format_code()\<close>, \<^verbatim>\<open>lint_code()\<close> and \<^verbatim>\<open>check_code()\<close>, lines 54 to 66.\<close>

definition format_code :: "platform \<Rightarrow> world \<Rightarrow> bool outcome \<times> world" where
  "format_code pf w = run_command pf ''pre-commit run --all-files'' ''Formatting all code'' w"

definition lint_code :: "platform \<Rightarrow> world \<Rightarrow> bool outcome \<times> world" where
  "lint_code pf w =
     run_command pf ''pre-commit run cppcheck --all-files'' ''Running C++ linting'' w"

definition check_code :: "platform \<Rightarrow> world \<Rightarrow> bool outcome \<times> world" where
  "check_code pf w =
     run_command pf ''pre-commit run --all-files'' ''Running all code quality checks'' w"

text \<open>
  \<^verbatim>\<open>build_debug()\<close> and \<^verbatim>\<open>build_release()\<close>, lines 69 to 94. No action catches
  an exception: one raised by a call ends the action and passes to its caller.
\<close>

definition build_debug :: "platform \<Rightarrow> world \<Rightarrow> bool outcome \<times> world" where
  "build_debug pf w =
     (case os_makedirs ''build'' w of
        (Raises e, w1) \<Rightarrow> (Raises e, w1)
      | (Returns _, w1) \<Rightarrow>
          (case os_chdir ''build'' w1 of
             (Raises e, w2) \<Rightarrow> (Raises e, w2)
           | (Returns _, w2) \<Rightarrow>
               (case run_command pf
                       ''cmake .. -DCMAKE_BUILD_TYPE=Debug -DBUILD_EXAMPLES=ON -DBUILD_TESTS=ON''
                       ''Configuring CMake'' w2 of
                  (Raises e, w3) \<Rightarrow> (Raises e, w3)
                | (Returns ok, w3) \<Rightarrow>
                    if \<not> ok then (Returns False, w3)
                    else run_command pf ''cmake --build .'' ''Building project'' w3)))"

definition build_release :: "platform \<Rightarrow> world \<Rightarrow> bool outcome \<times> world" where
  "build_release pf w =
     (case os_makedirs ''build'' w of
        (Raises e, w1) \<Rightarrow> (Raises e, w1)
      | (Returns _, w1) \<Rightarrow>
          (case os_chdir ''build'' w1 of
             (Raises e, w2) \<Rightarrow> (Raises e, w2)
           | (Returns _, w2) \<Rightarrow>
               (case run_command pf
                       ''cmake .. -DCMAKE_BUILD_TYPE=Release -DBUILD_EXAMPLES=ON -DBUILD_TESTS=ON''
                       ''Configuring CMake'' w2 of
                  (Raises e, w3) \<Rightarrow> (Raises e, w3)
                | (Returns ok, w3) \<Rightarrow>
                    if \<not> ok then (Returns False, w3)
                    else run_command pf ''cmake --build .'' ''Building project'' w3)))"

text \<open>\<^verbatim>\<open>run_tests()\<close>, lines 97 to 104.\<close>

definition run_tests :: "platform \<Rightarrow> world \<Rightarrow> bool outcome \<times> world" where
  "run_tests pf w =
     (if \<not> Path_exists ''build'' w then
        (Returns False,
         print (cross_mark
                @ '' Build directory not found. Run '' @ quoted ''python tasks.py build-debug''
                @ '' first.'') w)
      else
        (case os_chdir ''build'' w of
           (Raises e, w1) \<Rightarrow> (Raises e, w1)
         | (Returns _, w1) \<Rightarrow>
             run_command pf ''ctest --output-on-failure'' ''Running tests'' w1))"

text \<open>\<^verbatim>\<open>clean()\<close>, lines 107 to 114.\<close>

definition clean :: "world \<Rightarrow> bool outcome \<times> world" where
  "clean w =
     (if Path_exists ''build'' w then
        (case shutil_rmtree ''build'' w of
           (Raises e, w1) \<Rightarrow> (Raises e, w1)
         | (Returns _, w1) \<Rightarrow> (Returns True, print (broom @ '' Cleaned build directory'') w1))
      else (Returns True, w))"

text \<open>\<^verbatim>\<open>update_hooks()\<close>, lines 117 to 119.\<close>

definition update_hooks :: "platform \<Rightarrow> world \<Rightarrow> bool outcome \<times> world" where
  "update_hooks pf w = run_command pf ''pre-commit autoupdate'' ''Updating pre-commit hooks'' w"

text \<open>
  \<^verbatim>\<open>help()\<close>, lines 122 to 134; \<open>help\<close> is a command of the proof language, hence the
  longer name. It returns \<^verbatim>\<open>None\<close>.
\<close>

definition help_listing :: "string list" where
  "help_listing =
     [clipboard @ '' Available tasks:'',
      ''   setup-dev     - Set up development environment'',
      ''   format        - Format all code'',
      ''   lint          - Run C++ linting'',
      ''   check         - Run all code quality checks'',
      ''   build-debug   - Build project in debug mode'',
      ''   build-release - Build project in release mode'',
      ''   test          - Run all tests'',
      ''   clean         - Clean build artifacts'',
      ''   update-hooks  - Update pre-commit hooks'',
      ''   help          - Show this help'']"

definition help_task :: "world \<Rightarrow> world" where
  "help_task w = prints help_listing w"

subsection \<open>The Command Dispatcher\<close>

text \<open>
  The values of the dictionary \<^verbatim>\<open>tasks\<close> are the ten functions above, called with no
  argument. They get one type here: what the call returns or raises, and the state it
  leaves.
\<close>

type_synonym callable = "world \<Rightarrow> pyval outcome \<times> world"

definition returning_bool :: "(world \<Rightarrow> bool outcome \<times> world) \<Rightarrow> callable" where
  "returning_bool f w =
     (case f w of
        (Returns b, w') \<Rightarrow> (Returns (PyBool b), w')
      | (Raises e, w') \<Rightarrow> (Raises e, w'))"

definition returning_none :: "(world \<Rightarrow> world) \<Rightarrow> callable" where
  "returning_none f w = (Returns PyNone, f w)"

definition tasks :: "platform \<Rightarrow> (string \<times> callable) list" where
  "tasks pf =
     [(''setup-dev'', returning_bool (setup_dev pf)),
      (''format'', returning_bool (format_code pf)),
      (''lint'', returning_bool (lint_code pf)),
      (''check'', returning_bool (check_code pf)),
      (''build-debug'', returning_bool (build_debug pf)),
      (''build-release'', returning_bool (build_release pf)),
      (''test'', returning_bool (run_tests pf)),
      (''clean'', returning_bool clean),
      (''update-hooks'', returning_bool (update_hooks pf)),
      (''help'', returning_none help_task)]"



subsection \<open>Sample platforms and states\<close>

text \<open>
  Four platforms: one where every command succeeds and writes \<^verbatim>\<open>OK\<close>; one where every
  command fails with status 2 and writes to both streams; one where a single command
  fails silently with status 1 and every other one succeeds silently; and one where
  every command exits with a given status, having written bytes to its standard output
  that do not decode.
\<close>

definition tool_ok :: platform where
  "tool_ok =
     \<lparr>subprocess_run =
        (\<lambda>cmd dir files.
           (\<lparr>exit_status = 0, stdout_text = Some ''OK'', stderr_text = Some ''''\<rparr>, files)),
      signal_repr = (\<lambda>n. None)\<rparr>"


definition tool_failing_on :: "string \<Rightarrow> platform" where
  "tool_failing_on c =
     \<lparr>subprocess_run =
        (\<lambda>cmd dir files.
           (\<lparr>exit_status = (if cmd = c then 1 else 0), stdout_text = Some '''',
             stderr_text = Some ''''\<rparr>, files)),
      signal_repr = (\<lambda>n. None)\<rparr>"


text \<open>
  Four states: a checkout with no \<^verbatim>\<open>build\<close> in it; one with a build directory that
  holds a file; one where \<^verbatim>\<open>build\<close> is a regular file; and one where \<^verbatim>\<open>build\<close> is a
  symbolic link to a directory elsewhere.
\<close>

definition repo :: world where
  "repo = \<lparr>cwd = [''repo''], fs = [[''repo''] \<mapsto> Dir], printed = [], calls = []\<rparr>"




section \<open>Properties\<close>

subsection \<open>What one call of the Process Executor does\<close>

text \<open>
  \<^verbatim>\<open>run_command\<close> where both captured streams decode: the value it returns and each
  field of the state it leaves, from the exit status and the two texts. Where a stream
  does not decode, the exception of \<^verbatim>\<open>subprocess.run\<close> passes through, after the
  progress line.
\<close>

lemma run_command_decoded:
  assumes "subprocess_run pf cmd (cwd w) (fs w) = (child, fs')"
      and "stdout_text child = Some out"
      and "stderr_text child = Some err"
  shows "run_command pf cmd description w =
     (Returns (exit_status child = 0),
      w\<lparr>fs := fs',
        calls := calls w @ [(cmd, cwd w)],
        printed := printed w @ [wrench @ '' '' @ description @ ''...'']
          @ (if exit_status child = 0 then (if out = [] then [] else [out])
             else [cross_mark @ '' Error: '' @ CalledProcessError_str pf cmd (exit_status child)]
                  @ (if out = [] then [] else [''Output: '' @ out])
                  @ (if err = [] then [] else [''Error: '' @ err]))\<rparr>)"
  using assms by (simp add: run_command_def subprocess_run_check_def print_def Let_def)

lemma run_command_undecoded:
  assumes "subprocess_run pf cmd (cwd w) (fs w) = (child, fs')"
      and "stdout_text child = None \<or> stderr_text child = None"
  shows "run_command pf cmd description w =
     (Raises UnicodeDecodeError,
      w\<lparr>fs := fs',
        calls := calls w @ [(cmd, cwd w)],
        printed := printed w @ [wrench @ '' '' @ description @ ''...'']\<rparr>)"
  using assms
  by (auto simp add: run_command_def subprocess_run_check_def print_def Let_def
        split: option.split)

text \<open>The three ways \<^verbatim>\<open>run_command\<close> can end, and what it never changes.\<close>

lemma run_command_cases:
  obtains w' where "run_command pf cmd description w = (Returns True, w')"
  | w' where "run_command pf cmd description w = (Returns False, w')"
  | w' where "run_command pf cmd description w = (Raises UnicodeDecodeError, w')"
proof -
  obtain child fs' where s: "subprocess_run pf cmd (cwd w) (fs w) = (child, fs')"
    by (cases "subprocess_run pf cmd (cwd w) (fs w)")
  show thesis
  proof (cases "stdout_text child = None \<or> stderr_text child = None")
    case True
    from run_command_undecoded [OF s True] that(3) show thesis
      by blast
  next
    case False
    then obtain out err where "stdout_text child = Some out" "stderr_text child = Some err"
      by auto
    from run_command_decoded [OF s this] that(1,2) show thesis
      by (cases "exit_status child = 0") auto
  qed
qed

lemma run_command_cwd: "cwd (snd (run_command pf cmd description w)) = cwd w"
  by (simp add: run_command_def subprocess_run_check_def print_def Let_def
        split: prod.split option.split)

lemma run_command_calls:
  "calls (snd (run_command pf cmd description w)) = calls w @ [(cmd, cwd w)]"
  by (simp add: run_command_def subprocess_run_check_def print_def Let_def
        split: prod.split option.split)

lemma if_not_ok:
  "(case run_command pf cmd d w of
      (Raises e, w3) \<Rightarrow> (Raises e, w3)
    | (Returns ok, w3) \<Rightarrow> if \<not> ok then (Returns False, w3) else k w3)
   = (if fst (run_command pf cmd d w) = Returns True
      then k (snd (run_command pf cmd d w))
      else run_command pf cmd d w)"
  by (rule run_command_cases [of pf cmd d w]) simp_all







subsection \<open>The Command Dispatcher\<close>

lemma prints_eq: "prints ls w = w\<lparr>printed := printed w @ ls\<rparr>"
  unfolding prints_def by (induction ls arbitrary: w) (simp_all add: print_def)












subsection \<open>Setting up\<close>

lemma setup_dev_eq:
  "setup_dev pf w =
     (let s1 = run_command pf ''pip install -r requirements.txt''
                 ''Installing Python dependencies''
                 (print (rocket @ '' Setting up DeclarativeUI development environment...'') w)
      in if fst s1 = Returns True then
           (let s2 = run_command pf ''pre-commit install'' ''Installing pre-commit hooks''
                       (snd s1)
            in if fst s2 = Returns True then
                 (Returns True,
                  prints
                    [check_mark @ '' Development environment setup complete!'',
                     [CHR 0x0A] @ clipboard @ '' Next steps:'',
                     ''   1. mkdir build && cd build'',
                     ''   2. cmake .. -DCMAKE_BUILD_TYPE=Debug -DBUILD_EXAMPLES=ON -DBUILD_TESTS=ON'',
                     ''   3. cmake --build .'',
                     ''   4. ctest --output-on-failure''] (snd s2))
               else s2)
         else s1)"
  unfolding setup_dev_def if_not_ok Let_def ..


text \<open>
  C5. \<^verbatim>\<open>setup_dev\<close> runs the dependency install and then the hook install. If the first
  step returns \<^verbatim>\<open>False\<close>, \<^verbatim>\<open>setup_dev\<close> returns \<^verbatim>\<open>False\<close> in the state that step left and
  the dependency install is the only command it has run. If the first step returns
  \<^verbatim>\<open>True\<close>, both commands have run, in that order; if the second step then returns
  \<^verbatim>\<open>False\<close>, so does \<^verbatim>\<open>setup_dev\<close>. It returns \<^verbatim>\<open>True\<close> exactly when both steps do.
\<close>

theorem setup_dev_stops_at_first_failure:
  "(let pip = ''pip install -r requirements.txt'';
        hook = ''pre-commit install'';
        s1 = run_command pf pip ''Installing Python dependencies''
               (print (rocket @ '' Setting up DeclarativeUI development environment...'') w);
        s2 = run_command pf hook ''Installing pre-commit hooks'' (snd s1)
    in (fst s1 = Returns False \<longrightarrow>
          setup_dev pf w = (Returns False, snd s1)
          \<and> calls (snd (setup_dev pf w)) = calls w @ [(pip, cwd w)])
     \<and> (fst s1 = Returns True \<longrightarrow>
          calls (snd (setup_dev pf w)) = calls w @ [(pip, cwd w), (hook, cwd w)])
     \<and> (fst s1 = Returns True \<and> fst s2 = Returns False \<longrightarrow>
          setup_dev pf w = (Returns False, snd s2))
     \<and> (fst (setup_dev pf w) = Returns True
          \<longleftrightarrow> fst s1 = Returns True \<and> fst s2 = Returns True))"
  by (auto simp add: setup_dev_eq Let_def run_command_calls run_command_cwd
        prints_eq print_def prod_eq_iff)

theorem setup_dev_stops_at_first_failure_witness:
  "fst (setup_dev (tool_failing_on ''pip install -r requirements.txt'') repo) = Returns False
   \<and> calls (snd (setup_dev (tool_failing_on ''pip install -r requirements.txt'') repo))
       = [(''pip install -r requirements.txt'', [''repo''])]
   \<and> fst (setup_dev (tool_failing_on ''pre-commit install'') repo) = Returns False
   \<and> calls (snd (setup_dev (tool_failing_on ''pre-commit install'') repo))
       = [(''pip install -r requirements.txt'', [''repo'']), (''pre-commit install'', [''repo''])]
   \<and> fst (setup_dev tool_ok repo) = Returns True"
  using setup_dev_stops_at_first_failure [of "tool_failing_on ''pip install -r requirements.txt''" repo]
        setup_dev_stops_at_first_failure [of "tool_failing_on ''pre-commit install''" repo]
        setup_dev_stops_at_first_failure [of tool_ok repo]
  by (simp add: Let_def run_command_def subprocess_run_check_def tool_failing_on_def tool_ok_def
        print_def repo_def)

subsection \<open>Building, testing and cleaning\<close>

text \<open>What following links finds at a path that holds no link.\<close>

lemma stat_absent: "fs w (resolve w name) = None \<Longrightarrow> stat name w = Nothing"
  by (simp add: stat_def follow.simps)


















subsection \<open>The working directory\<close>




subsection \<open>Formatting and checking\<close>

text \<open>
  C10. \<^verbatim>\<open>format_code\<close> and \<^verbatim>\<open>check_code\<close> both return what \<^verbatim>\<open>run_command\<close> returns for the
  one command \<^verbatim>\<open>pre-commit run --all-files\<close>. Started in the same state they return the
  same value and leave the same state, but for the one progress line, which carries the
  description of each.
\<close>

theorem format_code_agrees_with_check_code:
  "format_code pf w = run_command pf ''pre-commit run --all-files'' ''Formatting all code'' w
   \<and> check_code pf w
       = run_command pf ''pre-commit run --all-files'' ''Running all code quality checks'' w
   \<and> fst (format_code pf w) = fst (check_code pf w)
   \<and> (snd (format_code pf w))\<lparr>printed := []\<rparr> = (snd (check_code pf w))\<lparr>printed := []\<rparr>
   \<and> (\<exists>rest.
         printed (snd (format_code pf w))
           = printed w @ [wrench @ '' Formatting all code...''] @ rest
         \<and> printed (snd (check_code pf w))
           = printed w @ [wrench @ '' Running all code quality checks...''] @ rest)"
proof -
  obtain child fs' where s:
      "subprocess_run pf ''pre-commit run --all-files'' (cwd w) (fs w) = (child, fs')"
    by (cases "subprocess_run pf ''pre-commit run --all-files'' (cwd w) (fs w)")
  show ?thesis
  proof (cases "stdout_text child = None \<or> stderr_text child = None")
    case True
    show ?thesis
      by (simp add: format_code_def check_code_def run_command_undecoded [OF s True])
  next
    case False
    then obtain out err where "stdout_text child = Some out" "stderr_text child = Some err"
      by auto
    from run_command_decoded [OF s this] show ?thesis
      by (simp add: format_code_def check_code_def)
  qed
qed

end
